theory Spec2Isabelle
  imports Main "HOL-Library.Word" "HOL-Library.Sublist"
begin

section \<open>Values of the Go runtime and of the libraries the monitor calls\<close>

text \<open>
  A Go \<open>error\<close> is identified with the text its \<open>Error()\<close> method returns: the monitor
  only ever appends errors, prints them and searches their text.
  \<open>int64\<close> is a 64-bit word read in two's complement; Go's \<open>int\<close> is taken to be 64 bits
  wide (the linux build of the Dockerfile), so \<open>int(x)\<close> of an \<open>int64\<close> is the identity.
  A \<open>*big.Int\<close> is an unbounded integer, \<open>nil\<close> being \<open>None\<close> of \<open>int option\<close>.
\<close>

type_synonym error = string
type_synonym int64 = "64 word"

definition Abs :: "int \<Rightarrow> int" where
  "Abs x = \<bar>x\<bar>"

definition Sub :: "int \<Rightarrow> int \<Rightarrow> int" where
  "Sub x y = x - y"

text \<open>
  \<open>(*big.Int).Int64\<close>: the low 64 bits of the magnitude, negated when the number is
  negative (what the library computes when the value does not fit).
\<close>

definition Int64 :: "int \<Rightarrow> int64" where
  "Int64 x = (let v = (word_of_int \<bar>x\<bar> :: int64) in if x < 0 then - v else v)"

text \<open>
  The conversion \<open>float32(v)\<close> of an integer: round to nearest, ties to even, on a
  significand of 24 bits. The result is again an integer, so it is given as one.
\<close>

fun bitlen :: "nat \<Rightarrow> nat" where
  "bitlen n = (if n = 0 then 0 else Suc (bitlen (n div 2)))"

declare bitlen.simps [simp del]

definition float32 :: "int \<Rightarrow> int" where
  "float32 x =
     (let a = nat \<bar>x\<bar>;
          e = bitlen a - 24;
          q = a div 2 ^ e;
          r = a mod 2 ^ e;
          q' = (if 2 ^ e < 2 * r then q + 1
                else if 2 * r = 2 ^ e then (if even q then q else q + 1)
                else q)
      in sgn x * int (q' * 2 ^ e))"

text \<open>
  \<open>time.Time.Sub\<close> gives a \<open>time.Duration\<close>, an \<open>int64\<close> of nanoseconds, and saturates
  at the smallest and largest duration. Instants are nanoseconds since the epoch.
\<close>

definition maxDuration :: int where
  "maxDuration = 2 ^ 63 - 1"

definition minDuration :: int where
  "minDuration = - (2 ^ 63)"

definition time_Sub :: "int \<Rightarrow> int \<Rightarrow> int64" where
  "time_Sub t u =
     (let d = t - u
      in if maxDuration < d then word_of_int maxDuration
         else if d < minDuration then word_of_int minDuration
         else word_of_int d)"

definition Minute :: int64 where
  "Minute = 60000000000"

text \<open>\<open>strings.Contains s substr\<close>.\<close>

definition Contains :: "string \<Rightarrow> string \<Rightarrow> bool" where
  "Contains s substr = sublist substr s"

text \<open>\<open>%d\<close> of a non-negative integer and \<open>%v\<close> of a boolean.\<close>

fun itoa :: "nat \<Rightarrow> string" where
  "itoa n = (if n < 10 then [char_of (48 + n)] else itoa (n div 10) @ [char_of (48 + n mod 10)])"

declare itoa.simps [simp del]

definition show_bool :: "bool \<Rightarrow> string" where
  "show_bool b = (if b then ''true'' else ''false'')"

subsection \<open>go-multierror\<close>

text \<open>
  \<open>var errors error\<close> starts as \<open>nil\<close> (\<open>None\<close>); \<open>multierror.Append\<close> turns it into a
  \<open>*multierror.Error\<close> holding the list of the errors appended so far, which as an \<open>error\<close>
  is never \<open>nil\<close> again. The errors appended here come from the clients and are taken to
  be plain errors (an appended \<open>*multierror.Error\<close> would be flattened).
\<close>

definition Append :: "error list option \<Rightarrow> error \<Rightarrow> error list option" where
  "Append errors err = (case errors of None \<Rightarrow> Some [err] | Some es \<Rightarrow> Some (es @ [err]))"

text \<open>
  \<open>(*multierror.Error).Error\<close> with the library's default \<open>ListFormatFunc\<close>: a headline with
  the number of errors, then one bullet per error, each on a line of its own.
\<close>

definition newline :: string where
  "newline = [CHR 0x0A]"

definition tab :: string where
  "tab = [CHR 0x09]"

fun Join :: "string list \<Rightarrow> string \<Rightarrow> string" where
  "Join [] sep = []"
| "Join [p] sep = p"
| "Join (p # ps) sep = p @ sep @ Join ps sep"

definition point :: "error \<Rightarrow> string" where
  "point err = ''* '' @ err"

definition ListFormatFunc :: "error list \<Rightarrow> string" where
  "ListFormatFunc es =
     (if length es = 1
      then ''1 error occurred:'' @ newline @ tab @ ''* '' @ hd es @ newline @ newline
      else itoa (length es) @ '' errors occurred:'' @ newline @ tab
           @ Join (map point es) (newline @ tab) @ newline @ newline)"

section \<open>Data model\<close>

text \<open>
  Modelled from the spec: the \<open>Block\<close> type is declared outside this file; the spec gives
  it a number and a timestamp, and the monitor reads only the timestamp.
\<close>

record Block =
  Number :: int
  Timestamp :: int

text \<open>The fields of \<open>Config\<close> that the polling loop and a gathering round read.\<close>

record Config =
  Endpoint :: string
  NodeName :: string
  RPCInterval :: int64
  SyncThreshold :: int64

text \<open>
  The \<open>Monitor\<close> struct. The logger, the sink and the HTTP server take no part in the
  state machine; \<open>etherscan\<close> and \<open>ethClient\<close> are the client pointers, given here by the
  address each was built for (\<open>None\<close> is \<open>nil\<close>).
\<close>

record Monitor =
  config :: Config
  chain :: string
  etherscan :: "string option"
  ethClient :: "string option"
  lastBlock :: "Block option"
  connected :: bool
  synced :: bool
  baseLabels :: "(string \<times> string) list"

text \<open>
  What the node and the explorer answer during one tick. Each call returns an error or a
  value, by Go's convention a \<open>nil\<close> value beside an error. \<open>BlockByNumber\<close> takes the
  pointer it is called with, which may be \<open>nil\<close>.
\<close>

record Node =
  Chain :: "error + string"
  PeerCount :: "error + int64"
  BlockNumber :: "error + int"
  BlockByNumber :: "int option \<Rightarrow> error + Block"
  EtherscanBlockNumber :: "error + int"

text \<open>
  What a round does to the outside, in order: the queries it sends, the gauges it sets
  and the lines it logs. A gauge carries the value handed to the \<open>float32\<close> conversion:
  an integer, or a duration whose seconds are taken.
\<close>

datatype query =
    ChainQuery
  | PeerCountQuery
  | BlockNumberQuery
  | BlockByNumberQuery "int option"
  | EtherscanQuery
  | NewClientQuery
  | ServiceRegisterQuery

datatype gauge = Float32OfInt int64 | Float32OfSeconds int64

datatype action =
    Call query
  | SetGaugeWithLabels "string list" gauge "(string \<times> string) list"
  | Logger string
  | Stdout string
  | Sleep int64

section \<open>Connecting: \<open>setupApis\<close>\<close>

definition kovan_url :: string where
  "kovan_url = ''https://kovan.etherscan.io/api?module=proxy&action=eth_blockNumber''"

definition foundation_url :: string where
  "foundation_url = ''https://api.etherscan.io/api?module=proxy&action=eth_blockNumber''"

definition chain_not_found :: "string \<Rightarrow> error" where
  "chain_not_found c =
     ''Chain '' @ c @ '' not found. '' @ [CHR 0x27] @ ''kovan'' @ [CHR 0x27] @ '' and ''
       @ [CHR 0x27] @ ''foundation'' @ [CHR 0x27] @ '' are the only valid options''"

definition setupApis :: "Node \<Rightarrow> Monitor \<Rightarrow> Monitor \<times> error option \<times> action list" where
  "setupApis node m =
     (let m = m\<lparr>ethClient := Some (Endpoint (config m))\<rparr>
      in case Chain node of
           Inl err \<Rightarrow> (m, Some err, [Call ChainQuery])
         | Inr c \<Rightarrow>
             if c = ''kovan''
             then (m\<lparr>etherscan := Some kovan_url\<rparr>, None,
                   [Call ChainQuery, Logger (''Using chain '' @ c)])
             else if c = ''foundation''
             then (m\<lparr>etherscan := Some foundation_url\<rparr>, None,
                   [Call ChainQuery, Logger (''Using chain '' @ c)])
             else (m, Some (chain_not_found c), [Call ChainQuery]))"

section \<open>One gathering round: \<open>gatherMetrics\<close>\<close>

definition gatherMetrics :: "Node \<Rightarrow> Monitor \<Rightarrow> Monitor \<times> error list option \<times> action list" where
  "gatherMetrics node m =
     (let errors = None;
          \<comment> \<open>Peers\<close>
          (errors, tr1) =
            (case PeerCount node of
               Inl err \<Rightarrow> (Append errors err, [Call PeerCountQuery])
             | Inr peers \<Rightarrow>
                 (errors, [Call PeerCountQuery,
                           SetGaugeWithLabels [''peers''] (Float32OfInt peers) (baseLabels m)]));
          \<comment> \<open>BlockNumber\<close>
          (blockNumber, errors, tr2) =
            (case BlockNumber node of
               Inl err \<Rightarrow> (None, Append errors err, [Call BlockNumberQuery])
             | Inr n \<Rightarrow>
                 (Some n, errors,
                  [Call BlockNumberQuery,
                   SetGaugeWithLabels [''blockNumber''] (Float32OfInt (Int64 n)) (baseLabels m)]));
          \<comment> \<open>Block\<close>
          (m, errors, tr3) =
            (case BlockByNumber node blockNumber of
               Inl err \<Rightarrow> (m, Append errors err, [Call (BlockByNumberQuery blockNumber)])
             | Inr block \<Rightarrow>
                 (m\<lparr>lastBlock := Some block\<rparr>, errors,
                  Call (BlockByNumberQuery blockNumber) #
                  (case lastBlock m of
                     None \<Rightarrow> []
                   | Some lb \<Rightarrow>
                       [SetGaugeWithLabels [''blocktime'']
                          (Float32OfSeconds (time_Sub (Timestamp block) (Timestamp lb)))
                          (baseLabels m)])));
          \<comment> \<open>Etherscan\<close>
          (m, errors, tr4) =
            (case blockNumber of
               None \<Rightarrow> (m, errors, [])
             | Some bn \<Rightarrow>
                 (case EtherscanBlockNumber node of
                    Inl err \<Rightarrow> (m, Append errors err, [Call EtherscanQuery])
                  | Inr realBlockNumber \<Rightarrow>
                      (let blocksbehind = Sub realBlockNumber bn;
                           blocksDiff = Int64 (Abs blocksbehind)
                       in ((if sint blocksDiff \<le> sint (SyncThreshold (config m))
                            then m\<lparr>synced := True\<rparr>
                            else m\<lparr>synced := False\<rparr>),
                           errors,
                           [Call EtherscanQuery,
                            SetGaugeWithLabels [''blocksbehind'']
                              (Float32OfInt (Int64 blocksbehind)) (baseLabels m)]))))
      in (m, errors, tr1 @ tr2 @ tr3 @ tr4))"

section \<open>The polling loop: \<open>start\<close>\<close>

text \<open>
  Each pass of the loop waits in a \<open>select\<close> for one of two channels: the timer, which
  brings the answers the node and the explorer will give during this tick, or the
  context's \<open>Done\<close> channel.
\<close>

datatype event = Tick Node | Done

text \<open>How a pass of the loop body ends: the loop goes on, or the function returns.\<close>

datatype flow = Next | Return

definition start_body :: "event \<Rightarrow> Monitor \<Rightarrow> flow \<times> Monitor \<times> action list" where
  "start_body ev m =
     (case ev of
        Tick node \<Rightarrow>
          if connected m
          then
            (let previousState = synced m;
                 (m, err, tr) = gatherMetrics node m
             in case err of
                  None \<Rightarrow> (Next, m, tr)
                | Some es \<Rightarrow>
                    (let tr = tr @ [Logger (''Export errors: '' @ ListFormatFunc es)];
                         (m, tr) =
                           (if Contains (ListFormatFunc es) ''connection refused''
                            then (m\<lparr>connected := False\<rparr>, tr @ [Logger ''Node may be down''])
                            else (m, tr));
                         tr = (if previousState \<noteq> synced m
                               then tr @ [Stdout (''State changed. Is Synced?: ''
                                                   @ show_bool (synced m) @ newline)]
                               else tr)
                     in (Next, m, tr)))
          else
            (case setupApis node m of
               (m, Some err, tr) \<Rightarrow>
                 (Next, m, tr @ [Logger (''Failed to connect to node: '' @ err)])
             | (m, None, tr) \<Rightarrow>
                 (Next, m\<lparr>connected := True\<rparr>,
                  tr @ [Logger ''Chain connected. Gathering metrics...'']))
      | Done \<Rightarrow> (Next, m, [Logger ''Monitor shutting down'']))"

text \<open>
  The loop \<open>for { select { ... } }\<close>. The schedule gives the channel that fires at each
  pass. The function returns \<open>Some\<close> when a pass ends in a return, and \<open>None\<close> when the
  fuel is used up with the loop still running.
\<close>

fun start :: "nat \<Rightarrow> (nat \<Rightarrow> event) \<Rightarrow> nat \<Rightarrow> Monitor \<Rightarrow> action list
              \<Rightarrow> (Monitor \<times> action list) option" where
  "start 0 sched i m tr = None"
| "start (Suc fuel) sched i m tr =
     (case start_body (sched i) m of
        (Next, m', tr') \<Rightarrow> start fuel sched (Suc i) m' (tr @ tr')
      | (Return, m', tr') \<Rightarrow> Some (m', tr @ tr'))"

section \<open>Registration with the registry: \<open>setupConsul\<close>\<close>

text \<open>
  What the registry's client library answers during one attempt: building the client
  and registering the service each give an error or none. The registration handed
  over is built from the static configuration and decides nothing here.
\<close>

record Consul =
  NewClient :: "error option"
  ServiceRegister :: "error option"

definition setupConsulImpl :: "Consul \<Rightarrow> error option \<times> action list" where
  "setupConsulImpl c =
     (case NewClient c of
        Some err \<Rightarrow> (Some err, [Call NewClientQuery])
      | None \<Rightarrow>
          (case ServiceRegister c of
             Some err \<Rightarrow> (Some err, [Call NewClientQuery, Call ServiceRegisterQuery])
           | None \<Rightarrow> (None, [Call NewClientQuery, Call ServiceRegisterQuery])))"

text \<open>
  The loop \<open>for i := 0; i < retries; i++\<close>, from the value \<open>i\<close> on; \<open>consul i\<close> is what
  the registry answers at the attempt numbered \<open>i\<close>. The result is what the function
  has done when it returns.
\<close>

function setupConsul_for :: "nat \<Rightarrow> int64 \<Rightarrow> (nat \<Rightarrow> Consul) \<Rightarrow> nat \<Rightarrow> action list" where
  "setupConsul_for retries sleepDuration consul i =
     (if i < retries
      then (case setupConsulImpl (consul i) of
              (None, tr) \<Rightarrow> tr @ [Logger ''Service registred in consul'']
            | (Some err, tr) \<Rightarrow>
                tr @ [Logger (''Failed to connect to consul: '' @ err), Sleep sleepDuration]
                  @ setupConsul_for retries sleepDuration consul (i + 1))
      else [Logger ''Stop trying to register on consul''])"
  by pat_completeness auto
termination
  by (relation "measure (\<lambda>(retries, sleepDuration, consul, i). retries - i)") auto

definition setupConsul :: "(nat \<Rightarrow> Consul) \<Rightarrow> action list" where
  "setupConsul consul =
     (let retries = 5;
          sleepDuration = 1 * Minute
      in setupConsul_for retries sleepDuration consul 0)"

section \<open>Reading a list of actions\<close>

fun queries :: "action list \<Rightarrow> query list" where
  "queries [] = []"
| "queries (Call q # tr) = q # queries tr"
| "queries (_ # tr) = queries tr"

text \<open>The values given to the gauge of one name, in order.\<close>

fun gauges :: "string \<Rightarrow> action list \<Rightarrow> gauge list" where
  "gauges name [] = []"
| "gauges name (SetGaugeWithLabels key g labels # tr) =
     (if key = [name] then g # gauges name tr else gauges name tr)"
| "gauges name (_ # tr) = gauges name tr"

fun gauge_keys :: "action list \<Rightarrow> string list list" where
  "gauge_keys [] = []"
| "gauge_keys (SetGaugeWithLabels key g labels # tr) = key # gauge_keys tr"
| "gauge_keys (_ # tr) = gauge_keys tr"

fun stdout_lines :: "action list \<Rightarrow> string list" where
  "stdout_lines [] = []"
| "stdout_lines (Stdout line # tr) = line # stdout_lines tr"
| "stdout_lines (_ # tr) = stdout_lines tr"

fun sleeps :: "action list \<Rightarrow> int64 list" where
  "sleeps [] = []"
| "sleeps (Sleep d # tr) = d # sleeps tr"
| "sleeps (_ # tr) = sleeps tr"

text \<open>
  The number a gauge shows when it was set from an integer: the \<open>float32\<close> of the
  \<open>int64\<close>. (The seconds of a duration are a fraction and are not given.)
\<close>

fun shown :: "gauge \<Rightarrow> int option" where
  "shown (Float32OfInt v) = Some (float32 (sint v))"
| "shown (Float32OfSeconds d) = None"

text \<open>The errors of the steps of a round that failed, in the order of the steps.\<close>

fun failure :: "error + 'a \<Rightarrow> error list" where
  "failure (Inl err) = [err]"
| "failure (Inr v) = []"

fun succeeded :: "error + 'a \<Rightarrow> bool" where
  "succeeded (Inl err) = False"
| "succeeded (Inr v) = True"

fun number_of :: "error + int \<Rightarrow> int option" where
  "number_of (Inl err) = None"
| "number_of (Inr n) = Some n"

section \<open>Example inputs\<close>

text \<open>
  A connected monitor with threshold 5 that has seen block 79 and is not yet synced,
  and a node at block 80 with the explorer at block 120.
\<close>

definition example_monitor :: Monitor where
  "example_monitor =
     \<lparr>config = \<lparr>Endpoint = ''http://localhost:8545'', NodeName = ''parity'',
                 RPCInterval = 15000000000, SyncThreshold = 5\<rparr>,
      chain = [], etherscan = Some foundation_url,
      ethClient = Some ''http://localhost:8545'',
      lastBlock = Some \<lparr>Number = 79, Timestamp = 1000000000\<rparr>,
      connected = True, synced = False,
      baseLabels = [(''node'', ''parity'')]\<rparr>"

definition example_node :: Node where
  "example_node =
     \<lparr>Chain = Inr ''foundation'', PeerCount = Inr 25, BlockNumber = Inr 80,
      BlockByNumber = (\<lambda>n. Inr \<lparr>Number = 80, Timestamp = 16000000000\<rparr>),
      EtherscanBlockNumber = Inr 120\<rparr>"

text \<open>The node cannot give its block number, but answers a query for no number with a block.\<close>

definition latest_block_node :: Node where
  "latest_block_node = example_node\<lparr>BlockNumber := Inl ''request timed out''\<rparr>"

text \<open>The node and the explorer are both at block 80.\<close>

definition caught_up_node :: Node where
  "caught_up_node = example_node\<lparr>EtherscanBlockNumber := Inr 80\<rparr>"

text \<open>The node is at block 0 and the explorer at block \<open>2^63\<close>.\<close>

definition beyond_int64_node :: Node where
  "beyond_int64_node =
     example_node\<lparr>BlockNumber := Inr 0, EtherscanBlockNumber := Inr 9223372036854775808\<rparr>"

text \<open>The node is at block 0 and the explorer at block \<open>2^24 + 1\<close>.\<close>

definition far_behind_node :: Node where
  "far_behind_node = example_node\<lparr>BlockNumber := Inr 0, EtherscanBlockNumber := Inr 16777217\<rparr>"

text \<open>The explorer refuses the connection while the node answers.\<close>

definition explorer_refused_node :: Node where
  "explorer_refused_node =
     example_node\<lparr>EtherscanBlockNumber :=
                    Inl ''dial tcp 104.22.14.57:443: connect: connection refused''\<rparr>"

text \<open>The node itself refuses every connection.\<close>

definition node_down :: Node where
  "node_down =
     \<lparr>Chain = Inl ''dial tcp 127.0.0.1:8545: connect: connection refused'',
      PeerCount = Inl ''dial tcp 127.0.0.1:8545: connect: connection refused'',
      BlockNumber = Inl ''dial tcp 127.0.0.1:8545: connect: connection refused'',
      BlockByNumber = (\<lambda>n. Inl ''dial tcp 127.0.0.1:8545: connect: connection refused''),
      EtherscanBlockNumber = Inr 120\<rparr>"

text \<open>A registry that refuses every registration, and one that accepts the third.\<close>

definition always_refused :: "nat \<Rightarrow> Consul" where
  "always_refused j = \<lparr>NewClient = None, ServiceRegister = Some ''connection refused''\<rparr>"

definition third_time :: "nat \<Rightarrow> Consul" where
  "third_time j =
     \<lparr>NewClient = None,
      ServiceRegister = (if j < 2 then Some ''connection refused'' else None)\<rparr>"

section \<open>Reading a run of the registration loop\<close>

text \<open>Whether an attempt registers the service, and what one pass of the loop does.\<close>

definition registered :: "Consul \<Rightarrow> bool" where
  "registered c = (case setupConsulImpl c of (None, tr) \<Rightarrow> True | (Some err, tr) \<Rightarrow> False)"

definition attempt_actions :: "int64 \<Rightarrow> Consul \<Rightarrow> action list" where
  "attempt_actions sleepDuration c =
     (case setupConsulImpl c of
        (None, tr) \<Rightarrow> tr @ [Logger ''Service registred in consul'']
      | (Some err, tr) \<Rightarrow>
          tr @ [Logger (''Failed to connect to consul: '' @ err), Sleep sleepDuration])"

text \<open>Every call of \<open>setupConsulImpl\<close> begins by building the client: one per attempt.\<close>

definition attempts :: "action list \<Rightarrow> nat" where
  "attempts tr = count_list (queries tr) NewClientQuery"

section \<open>Facts about the conversions\<close>

lemma Int64_word_of_int: "Int64 x = word_of_int x"
  by (simp add: Int64_def Let_def abs_if)

lemma sint_Int64: "- (2 ^ 63) \<le> x \<Longrightarrow> x < 2 ^ 63 \<Longrightarrow> sint (Int64 x) = x"
  unfolding Int64_word_of_int
  by (simp add: signed_of_int signed_take_bit_int_eq_self)

lemma surj_triple: "p = (fst p, fst (snd p), snd (snd p))"
  by simp

lemma bitlen_le: "n < 2 ^ k \<Longrightarrow> bitlen n \<le> k"
proof (induction k arbitrary: n)
  case 0
  then show ?case by (simp add: bitlen.simps)
next
  case (Suc k)
  show ?case
  proof (cases "n = 0")
    case True
    then show ?thesis by (simp add: bitlen.simps)
  next
    case False
    from Suc.prems have "n div 2 < 2 ^ k" by simp
    then have "bitlen (n div 2) \<le> k" by (rule Suc.IH)
    with False show ?thesis by (subst bitlen.simps) simp
  qed
qed

lemma bitlen_gt: "2 ^ k \<le> n \<Longrightarrow> k < bitlen n"
proof (induction k arbitrary: n)
  case 0
  then have "n \<noteq> 0" by simp
  then show ?case by (subst bitlen.simps) simp
next
  case (Suc k)
  have "(0::nat) < 2 ^ Suc k" by simp
  with Suc.prems have n: "n \<noteq> 0" by linarith
  from Suc.prems have "2 ^ k \<le> n div 2" by simp
  then have "k < bitlen (n div 2)" by (rule Suc.IH)
  with n show ?case by (subst bitlen.simps) simp
qed

lemma bitlen_eq: "2 ^ k \<le> n \<Longrightarrow> n < 2 ^ Suc k \<Longrightarrow> bitlen n = Suc k"
  using bitlen_le [of n "Suc k"] bitlen_gt [of k n] by simp

lemma bitlen_25: "2 ^ 24 \<le> n \<Longrightarrow> n < 2 ^ 25 \<Longrightarrow> bitlen n - 24 = 1"
  using bitlen_eq [of 24 n] by simp

lemma float32_exact_below: "\<bar>x\<bar> < 2 ^ 24 \<Longrightarrow> float32 x = x"
proof -
  assume a: "\<bar>x\<bar> < 2 ^ 24"
  then have "nat \<bar>x\<bar> < 2 ^ 24" by simp
  then have "bitlen (nat \<bar>x\<bar>) \<le> 24" by (rule bitlen_le)
  then have e: "bitlen (nat \<bar>x\<bar>) - 24 = 0" by simp
  show ?thesis
    unfolding float32_def Let_def e
    by (simp add: sgn_if)
qed

lemma float32_pow24: "float32 16777216 = 16777216"
proof -
  have e: "bitlen (nat \<bar>16777216\<bar>) - 24 = 1" by (rule bitlen_25) simp_all
  show ?thesis unfolding float32_def Let_def e by simp
qed

lemma float32_neg_pow24: "float32 (- 16777216) = - 16777216"
proof -
  have e: "bitlen (nat \<bar>- 16777216\<bar>) - 24 = 1" by (rule bitlen_25) simp_all
  show ?thesis unfolding float32_def Let_def e by simp
qed

lemma float32_16777217: "float32 16777217 = 16777216"
proof -
  have e: "bitlen (nat \<bar>16777217\<bar>) - 24 = 1" by (rule bitlen_25) simp_all
  show ?thesis unfolding float32_def Let_def e by simp
qed

lemma float32_exact: "\<bar>x\<bar> \<le> 2 ^ 24 \<Longrightarrow> float32 x = x"
proof -
  assume "\<bar>x\<bar> \<le> 2 ^ 24"
  then consider "\<bar>x\<bar> < 2 ^ 24" | "x = 16777216" | "x = - 16777216" by fastforce
  then show ?thesis
    by cases (simp_all add: float32_exact_below float32_pow24 float32_neg_pow24)
qed

lemma queries_append: "queries (xs @ ys) = queries xs @ queries ys"
  by (induction xs rule: queries.induct) simp_all

lemma sleeps_append: "sleeps (xs @ ys) = sleeps xs @ sleeps ys"
  by (induction xs rule: sleeps.induct) simp_all

section \<open>The polling loop\<close>

lemma start_body_Next: "fst (start_body ev m) = Next"
  by (cases ev)
     (simp_all add: start_body_def Let_def split: prod.splits option.splits)

text \<open>
  C3. After the cancellation signal the loop is meant to stop: the loop function should
  return once the tick handler in flight is done. In the code no pass of the loop body
  ends in a return: the \<open>Done\<close> case logs that the monitor is shutting down and the
  loop goes round again. So with any amount of fuel, under any schedule of the two
  channels and from any state, \<open>start\<close> has not returned; and a pass taken on \<open>Done\<close>
  leaves the monitor as it was and asks for the next pass.
\<close>

theorem start_never_returns:
  "start fuel sched i m tr = None
   \<and> start_body Done m = (Next, m, [Logger ''Monitor shutting down''])"
proof
  show "start fuel sched i m tr = None"
  proof (induction fuel arbitrary: i m tr)
    case 0
    show ?case by simp
  next
    case (Suc fuel)
    obtain fl m' tr' where b: "start_body (sched i) m = (fl, m', tr')"
      by (cases "start_body (sched i) m") auto
    with start_body_Next [of "sched i" m] have "fl = Next" by simp
    with b Suc.IH show ?case by simp
  qed
  show "start_body Done m = (Next, m, [Logger ''Monitor shutting down''])"
    by (simp add: start_body_def)
qed

text \<open>
  C5. On a tick taken while \<open>connected\<close> is false no gathering round runs: the only
  query sent is the chain probe of \<open>setupApis\<close>, no gauge is set, and \<open>synced\<close> and
  \<open>lastBlock\<close> stay as they were. \<open>connected\<close> becomes true exactly when the probe
  answers \<open>kovan\<close> or \<open>foundation\<close>, and then the explorer is resolved to the address of
  that chain; any other identifier, and any error of the probe, leaves it false.
\<close>

theorem start_body_disconnected:
  assumes "\<not> connected m" and "start_body (Tick node) m = (fl, m', tr)"
  shows "queries tr = [ChainQuery] \<and> gauge_keys tr = []
         \<and> synced m' = synced m \<and> lastBlock m' = lastBlock m
         \<and> (connected m' \<longleftrightarrow> Chain node = Inr ''kovan'' \<or> Chain node = Inr ''foundation'')
         \<and> (Chain node = Inr ''kovan'' \<longrightarrow> etherscan m' = Some kovan_url)
         \<and> (Chain node = Inr ''foundation'' \<longrightarrow> etherscan m' = Some foundation_url)"
  using assms
  by (auto simp: start_body_def setupApis_def Let_def split: sum.splits if_splits)

theorem start_body_disconnected_witness:
  "\<not> connected (example_monitor\<lparr>connected := False\<rparr>)
   \<and> queries (snd (snd (start_body (Tick example_node) (example_monitor\<lparr>connected := False\<rparr>))))
       = [ChainQuery]
   \<and> connected (fst (snd (start_body (Tick example_node) (example_monitor\<lparr>connected := False\<rparr>))))
   \<and> etherscan (fst (snd (start_body (Tick example_node) (example_monitor\<lparr>connected := False\<rparr>))))
       = Some foundation_url
   \<and> \<not> connected (fst (snd (start_body (Tick (example_node\<lparr>Chain := Inr ''ropsten''\<rparr>))
                                 (example_monitor\<lparr>connected := False\<rparr>))))"
proof -
  have h: "\<not> connected (example_monitor\<lparr>connected := False\<rparr>)"
    by simp
  have c: "Chain example_node = Inr ''foundation''"
    by (simp add: example_node_def)
  have d: "Chain (example_node\<lparr>Chain := Inr ''ropsten''\<rparr>) = Inr ''ropsten''"
    by simp
  from start_body_disconnected [OF h surj_triple, of example_node]
       start_body_disconnected [OF h surj_triple, of "example_node\<lparr>Chain := Inr ''ropsten''\<rparr>"]
       h c d
  show ?thesis by simp
qed

section \<open>A gathering round\<close>

text \<open>
  What the code compares with the threshold is the \<open>int\<close> it makes of the lag,
  \<open>int(Abs(Sub(remote, local)).Int64())\<close>: \<open>synced\<close> is set to whether that \<open>int\<close> is at
  most the threshold, in every round that obtains both block numbers.
\<close>

lemma gatherMetrics_synced_int:
  assumes "BlockNumber node = Inr local" and "EtherscanBlockNumber node = Inr remote"
    and "gatherMetrics node m = (m', errs, tr)"
  shows "synced m' \<longleftrightarrow>
           sint (Int64 (Abs (Sub remote local))) \<le> sint (SyncThreshold (config m))"
  using assms
  by (auto simp: gatherMetrics_def Let_def split: sum.splits option.splits if_splits)

text \<open>
  C4. In every round that reaches the lag computation \<open>synced\<close> is meant to be whether
  the absolute lag is at most the threshold. The lag is converted to an \<open>int64\<close>
  before it is compared, and a lag of \<open>2^63\<close> becomes \<open>-2^63\<close>: with the node at block
  0, the explorer at block \<open>2^63\<close> and threshold 5 the lag is above the threshold and
  the round sets \<open>synced\<close> to true.
\<close>

theorem synced_beyond_int64:
  "BlockNumber beyond_int64_node = Inr 0
   \<and> EtherscanBlockNumber beyond_int64_node = Inr 9223372036854775808
   \<and> sint (SyncThreshold (config example_monitor)) = 5
   \<and> \<not> \<bar>9223372036854775808 - 0\<bar> \<le> (5::int)
   \<and> \<not> synced example_monitor
   \<and> synced (fst (gatherMetrics beyond_int64_node example_monitor))"
  by (simp add: beyond_int64_node_def example_node_def example_monitor_def gatherMetrics_def
        Let_def Sub_def Abs_def Int64_def)

text \<open>
  C4, as the code has it. In every round that reaches the lag computation (the node
  gave its block number and the explorer gave its own) with an absolute lag
  \<open>\<bar>remote - local\<bar>\<close> below \<open>2^63\<close>, \<open>synced\<close> is set to whether the absolute lag is at
  most the threshold, the boundary included: a lag equal to the threshold gives
  \<open>synced\<close>, a lag of the threshold plus one gives not \<open>synced\<close>.
\<close>

theorem gatherMetrics_synced_threshold:
  assumes "BlockNumber node = Inr local" and "EtherscanBlockNumber node = Inr remote"
    and "gatherMetrics node m = (m', errs, tr)"
    and "\<bar>remote - local\<bar> < 2 ^ 63"
  shows "(synced m' \<longleftrightarrow> \<bar>remote - local\<bar> \<le> sint (SyncThreshold (config m)))
         \<and> (\<bar>remote - local\<bar> = sint (SyncThreshold (config m)) \<longrightarrow> synced m')
         \<and> (\<bar>remote - local\<bar> = sint (SyncThreshold (config m)) + 1 \<longrightarrow> \<not> synced m')"
proof -
  from assms(4) have l: "sint (Int64 (Abs (Sub remote local))) = \<bar>remote - local\<bar>"
    by (simp add: Abs_def Sub_def sint_Int64)
  have "synced m' \<longleftrightarrow>
          sint (Int64 (Abs (Sub remote local))) \<le> sint (SyncThreshold (config m))"
    using assms(1-3) by (rule gatherMetrics_synced_int)
  with l have s: "synced m' \<longleftrightarrow> \<bar>remote - local\<bar> \<le> sint (SyncThreshold (config m))"
    by simp
  then show ?thesis by simp
qed

theorem gatherMetrics_synced_threshold_witness:
  "synced (fst (gatherMetrics (example_node\<lparr>EtherscanBlockNumber := Inr 85\<rparr>) example_monitor))
   \<and> \<not> synced (fst (gatherMetrics (example_node\<lparr>EtherscanBlockNumber := Inr 86\<rparr>) example_monitor))"
proof -
  have b: "BlockNumber (example_node\<lparr>EtherscanBlockNumber := Inr r\<rparr>) = Inr 80" for r
    by (simp add: example_node_def)
  have e: "EtherscanBlockNumber (example_node\<lparr>EtherscanBlockNumber := Inr r\<rparr>) = Inr r" for r
    by simp
  have t: "sint (SyncThreshold (config example_monitor)) = 5"
    by (simp add: example_monitor_def)
  have l5: "\<bar>85 - 80\<bar> < (2 ^ 63 :: int)"
    by simp
  have l6: "\<bar>86 - 80\<bar> < (2 ^ 63 :: int)"
    by simp
  from gatherMetrics_synced_threshold [OF b e surj_triple l5, of example_monitor]
       gatherMetrics_synced_threshold [OF b e surj_triple l6, of example_monitor]
       t
  show ?thesis by simp
qed

text \<open>
  C1. When the block-number query fails, steps 3 and 4 are meant to be skipped. The
  code guards only the explorer step with \<open>blockNumber != nil\<close>; the block query is
  sent all the same, with the \<open>nil\<close> number. Here the node times out on its block
  number and answers the query for no number with a block: the round sends the
  block query with \<open>nil\<close>, sets the \<open>blocktime\<close> gauge and overwrites \<open>lastBlock\<close>.
  Only the explorer step is skipped: no \<open>blocksbehind\<close> gauge is set.
\<close>

theorem gatherMetrics_block_query_with_missing_number:
  "BlockNumber latest_block_node = Inl ''request timed out''
   \<and> queries (snd (snd (gatherMetrics latest_block_node example_monitor)))
       = [PeerCountQuery, BlockNumberQuery, BlockByNumberQuery None]
   \<and> gauges ''blocktime'' (snd (snd (gatherMetrics latest_block_node example_monitor)))
       = [Float32OfSeconds 15000000000]
   \<and> lastBlock (fst (gatherMetrics latest_block_node example_monitor))
       = Some \<lparr>Number = 80, Timestamp = 16000000000\<rparr>
   \<and> lastBlock example_monitor = Some \<lparr>Number = 79, Timestamp = 1000000000\<rparr>
   \<and> gauges ''blocksbehind'' (snd (snd (gatherMetrics latest_block_node example_monitor))) = []"
  by (simp add: latest_block_node_def example_node_def example_monitor_def gatherMetrics_def
        Let_def Append_def time_Sub_def maxDuration_def minDuration_def)

text \<open>
  Whatever the node answers to the query for no number, a round whose block-number
  query fails sends that query, and skips the explorer: \<open>synced\<close> stays as it was.
\<close>

lemma gatherMetrics_no_number:
  assumes "BlockNumber node = Inl err" and "gatherMetrics node m = (m', errs, tr)"
  shows "BlockByNumberQuery None \<in> set (queries tr) \<and> EtherscanQuery \<notin> set (queries tr)
         \<and> gauges ''blocksbehind'' tr = [] \<and> synced m' = synced m"
  using assms
  by (auto simp: gatherMetrics_def Let_def split: sum.splits option.splits if_splits)

text \<open>
  C6. A round never stops early. Whatever each query answers, the peer count, the
  block number and the block are each asked for exactly once, in this order, and the
  explorer exactly once whenever the node gave its block number (the step that needs
  the number is not taken without it). The error returned collects the errors of the
  steps that failed, in order; it is \<open>nil\<close> exactly when all four queries succeeded.
\<close>

theorem gatherMetrics_attempts_every_step:
  assumes "gatherMetrics node m = (m', errs, tr)"
  shows "queries tr =
           [PeerCountQuery, BlockNumberQuery, BlockByNumberQuery (number_of (BlockNumber node))]
           @ (if succeeded (BlockNumber node) then [EtherscanQuery] else [])
         \<and> errs =
             (let es = failure (PeerCount node) @ failure (BlockNumber node)
                       @ failure (BlockByNumber node (number_of (BlockNumber node)))
                       @ (if succeeded (BlockNumber node)
                          then failure (EtherscanBlockNumber node) else [])
              in if es = [] then None else Some es)
         \<and> (errs = None \<longleftrightarrow>
               succeeded (PeerCount node) \<and> succeeded (BlockNumber node)
               \<and> succeeded (BlockByNumber node (number_of (BlockNumber node)))
               \<and> succeeded (EtherscanBlockNumber node))"
proof -
  have q: "queries tr =
           [PeerCountQuery, BlockNumberQuery, BlockByNumberQuery (number_of (BlockNumber node))]
           @ (if succeeded (BlockNumber node) then [EtherscanQuery] else [])"
    using assms
    by (cases "PeerCount node"; cases "BlockNumber node";
        cases "BlockByNumber node (number_of (BlockNumber node))";
        cases "EtherscanBlockNumber node"; cases "lastBlock m")
       (auto simp: gatherMetrics_def Let_def)
  have e: "errs =
             (let es = failure (PeerCount node) @ failure (BlockNumber node)
                       @ failure (BlockByNumber node (number_of (BlockNumber node)))
                       @ (if succeeded (BlockNumber node)
                          then failure (EtherscanBlockNumber node) else [])
              in if es = [] then None else Some es)"
    using assms
    by (cases "PeerCount node"; cases "BlockNumber node";
        cases "BlockByNumber node (number_of (BlockNumber node))";
        cases "EtherscanBlockNumber node")
       (auto simp: gatherMetrics_def Let_def Append_def)
  have n: "errs = None \<longleftrightarrow>
               succeeded (PeerCount node) \<and> succeeded (BlockNumber node)
               \<and> succeeded (BlockByNumber node (number_of (BlockNumber node)))
               \<and> succeeded (EtherscanBlockNumber node)"
    unfolding e
    by (cases "PeerCount node"; cases "BlockNumber node";
        cases "BlockByNumber node (number_of (BlockNumber node))";
        cases "EtherscanBlockNumber node")
       (simp_all add: Let_def)
  from q e n show ?thesis by blast
qed

theorem gatherMetrics_attempts_every_step_witness:
  "queries (snd (snd (gatherMetrics (example_node\<lparr>PeerCount := Inl ''timeout''\<rparr>) example_monitor)))
     = [PeerCountQuery, BlockNumberQuery, BlockByNumberQuery (Some 80), EtherscanQuery]
   \<and> fst (snd (gatherMetrics (example_node\<lparr>PeerCount := Inl ''timeout''\<rparr>) example_monitor))
       = Some [''timeout'']
   \<and> fst (snd (gatherMetrics example_node example_monitor)) = None"
proof -
  have p: "PeerCount (example_node\<lparr>PeerCount := Inl ''timeout''\<rparr>) = Inl ''timeout''"
    by simp
  have r: "BlockNumber (example_node\<lparr>PeerCount := Inl ''timeout''\<rparr>) = Inr 80"
          "BlockByNumber (example_node\<lparr>PeerCount := Inl ''timeout''\<rparr>) (Some 80)
             = Inr \<lparr>Number = 80, Timestamp = 16000000000\<rparr>"
          "EtherscanBlockNumber (example_node\<lparr>PeerCount := Inl ''timeout''\<rparr>) = Inr 120"
    by (simp_all add: example_node_def)
  have o: "PeerCount example_node = Inr 25" "BlockNumber example_node = Inr 80"
          "BlockByNumber example_node (Some 80) = Inr \<lparr>Number = 80, Timestamp = 16000000000\<rparr>"
          "EtherscanBlockNumber example_node = Inr 120"
    by (simp_all add: example_node_def)
  from gatherMetrics_attempts_every_step
         [OF surj_triple, of "example_node\<lparr>PeerCount := Inl ''timeout''\<rparr>" example_monitor]
       gatherMetrics_attempts_every_step [OF surj_triple, of example_node example_monitor]
       p r o
  show ?thesis by (simp add: Let_def)
qed

text \<open>
  C8. In a round that obtains both block numbers the \<open>blocksbehind\<close> gauge is set from
  the signed difference \<open>remote - local\<close>. The gauge is a \<open>float32\<close>, which holds 24
  significant bits: with the node at block 0 and the explorer at block 16777217 the
  gauge shows 16777216, not the difference.
\<close>

theorem blocksbehind_gauge_rounded:
  "BlockNumber far_behind_node = Inr 0 \<and> EtherscanBlockNumber far_behind_node = Inr 16777217
   \<and> map shown (gauges ''blocksbehind'' (snd (snd (gatherMetrics far_behind_node example_monitor))))
       = [Some 16777216]
   \<and> map shown (gauges ''blocksbehind'' (snd (snd (gatherMetrics far_behind_node example_monitor))))
       \<noteq> [Some (Sub 16777217 0)]"
  by (simp add: far_behind_node_def example_node_def example_monitor_def gatherMetrics_def
        Let_def Sub_def Int64_def float32_16777217)

text \<open>
  C8, as the code has it. The gauge is set once, from the \<open>int64\<close> of the signed
  difference; it shows the difference itself whenever that is at most \<open>2^24\<close> in
  absolute value. \<open>synced\<close> is set by comparing the absolute difference with the
  threshold whenever that difference is below \<open>2^63\<close>. With the node at 80, the
  explorer at 120 and threshold 5 the gauge shows 40 and \<open>synced\<close> is false.
\<close>

theorem gatherMetrics_blocksbehind:
  assumes "BlockNumber node = Inr local" and "EtherscanBlockNumber node = Inr remote"
    and "gatherMetrics node m = (m', errs, tr)"
  shows "gauges ''blocksbehind'' tr = [Float32OfInt (Int64 (remote - local))]
         \<and> (\<bar>remote - local\<bar> \<le> 2 ^ 24 \<longrightarrow>
              map shown (gauges ''blocksbehind'' tr) = [Some (remote - local)])
         \<and> (\<bar>remote - local\<bar> < 2 ^ 63 \<longrightarrow>
              (synced m' \<longleftrightarrow> \<bar>remote - local\<bar> \<le> sint (SyncThreshold (config m))))"
proof -
  have g: "gauges ''blocksbehind'' tr = [Float32OfInt (Int64 (remote - local))]"
    using assms
    by (cases "PeerCount node"; cases "BlockByNumber node (Some local)"; cases "lastBlock m")
       (auto simp: gatherMetrics_def Let_def Sub_def)
  have v: "\<bar>remote - local\<bar> \<le> 2 ^ 24 \<longrightarrow>
              map shown (gauges ''blocksbehind'' tr) = [Some (remote - local)]"
  proof
    assume a: "\<bar>remote - local\<bar> \<le> 2 ^ 24"
    then have "sint (Int64 (remote - local)) = remote - local"
      by (intro sint_Int64) simp_all
    with a show "map shown (gauges ''blocksbehind'' tr) = [Some (remote - local)]"
      by (simp add: g float32_exact)
  qed
  have s: "\<bar>remote - local\<bar> < 2 ^ 63 \<longrightarrow>
              (synced m' \<longleftrightarrow> \<bar>remote - local\<bar> \<le> sint (SyncThreshold (config m)))"
  proof
    assume a: "\<bar>remote - local\<bar> < 2 ^ 63"
    then have l: "sint (Int64 (Abs (Sub remote local))) = \<bar>remote - local\<bar>"
      by (simp add: Abs_def Sub_def sint_Int64)
    have "synced m' \<longleftrightarrow>
             sint (Int64 (Abs (Sub remote local))) \<le> sint (SyncThreshold (config m))"
      using assms
      by (auto simp: gatherMetrics_def Let_def split: sum.splits option.splits if_splits)
    with l show "synced m' \<longleftrightarrow> \<bar>remote - local\<bar> \<le> sint (SyncThreshold (config m))"
      by simp
  qed
  from g v s show ?thesis by blast
qed

theorem gatherMetrics_blocksbehind_witness:
  "map shown (gauges ''blocksbehind'' (snd (snd (gatherMetrics example_node example_monitor))))
     = [Some 40]
   \<and> \<not> synced (fst (gatherMetrics example_node example_monitor))"
proof -
  have b: "BlockNumber example_node = Inr 80"
    by (simp add: example_node_def)
  have e: "EtherscanBlockNumber example_node = Inr 120"
    by (simp add: example_node_def)
  have t: "sint (SyncThreshold (config example_monitor)) = 5"
    by (simp add: example_monitor_def)
  note w = gatherMetrics_blocksbehind [OF b e surj_triple, of example_monitor]
  have v: "map shown (gauges ''blocksbehind''
             (snd (snd (gatherMetrics example_node example_monitor)))) = [Some (120 - 80)]"
    by (rule mp [OF conjunct1 [OF conjunct2 [OF w]]]) simp
  have s: "synced (fst (gatherMetrics example_node example_monitor))
             \<longleftrightarrow> \<bar>120 - 80\<bar> \<le> sint (SyncThreshold (config example_monitor))"
    by (rule mp [OF conjunct2 [OF conjunct2 [OF w]]]) simp
  from v s t show ?thesis by simp
qed

section \<open>Transitions of \<open>synced\<close> and their report\<close>

lemma stdout_lines_append: "stdout_lines (xs @ ys) = stdout_lines xs @ stdout_lines ys"
  by (induction xs rule: stdout_lines.induct) simp_all

lemma gatherMetrics_prints_nothing:
  "gatherMetrics node m = (m1, errs, tr1) \<Longrightarrow> stdout_lines tr1 = []"
  by (cases "PeerCount node"; cases "BlockNumber node";
      cases "BlockByNumber node (number_of (BlockNumber node))";
      cases "EtherscanBlockNumber node"; cases "lastBlock m")
     (auto simp: gatherMetrics_def Let_def)

text \<open>
  What is printed on a connected tick: the transition, once, when the round returned
  an error and \<open>synced\<close> changed; nothing otherwise.
\<close>

lemma start_body_report:
  assumes "connected m" and "start_body (Tick node) m = (fl, m', tr)"
    and "gatherMetrics node m = (m1, errs, tr1)"
  shows "stdout_lines tr =
           (if errs \<noteq> None \<and> synced m' \<noteq> synced m
            then [''State changed. Is Synced?: '' @ show_bool (synced m') @ newline]
            else [])"
  using assms(3) assms(1,2) gatherMetrics_prints_nothing [OF assms(3)]
  by (auto simp: start_body_def Let_def stdout_lines_append split: option.splits if_splits)

text \<open>
  C2. A change of \<open>synced\<close> is meant to be reported once, whether or not the round
  returned an error. In the code the comparison with the previous value sits inside
  the branch taken when the round returned an error. Here a connected monitor that
  is not synced runs a round in which every query succeeds and the node has caught
  up: \<open>synced\<close> becomes true, the round returns no error, and nothing is printed. The
  same change is printed when the peer count fails in that round.
\<close>

theorem start_body_unreported_transition:
  "connected example_monitor \<and> \<not> synced example_monitor
   \<and> fst (snd (gatherMetrics caught_up_node example_monitor)) = None
   \<and> synced (fst (snd (start_body (Tick caught_up_node) example_monitor)))
   \<and> stdout_lines (snd (snd (start_body (Tick caught_up_node) example_monitor))) = []
   \<and> stdout_lines (snd (snd (start_body (Tick (caught_up_node\<lparr>PeerCount := Inl ''timeout''\<rparr>))
                                 example_monitor)))
       = [''State changed. Is Synced?: true'' @ newline]"
  by (simp add: caught_up_node_def example_node_def example_monitor_def start_body_def
        gatherMetrics_def Let_def Append_def time_Sub_def maxDuration_def minDuration_def
        Sub_def Abs_def Int64_def ListFormatFunc_def Contains_def newline_def tab_def
        show_bool_def sublist_code prefix_code)

section \<open>The registration loop\<close>

lemma attempts_append: "attempts (xs @ ys) = attempts xs + attempts ys"
  by (simp add: attempts_def queries_append)

lemma attempts_attempt_actions: "attempts (attempt_actions d c) = 1"
  by (simp add: attempts_def attempt_actions_def setupConsulImpl_def split: option.splits)

lemma sleeps_attempt_actions:
  "sleeps (attempt_actions d c) = (if registered c then [] else [d])"
  by (simp add: attempt_actions_def registered_def setupConsulImpl_def split: option.splits)

lemma setupConsul_for_all_fail:
  "(\<And>j. i \<le> j \<Longrightarrow> j < retries \<Longrightarrow> \<not> registered (consul j)) \<Longrightarrow>
   setupConsul_for retries d consul i =
     concat (map (\<lambda>j. attempt_actions d (consul j)) [i..<retries])
     @ [Logger ''Stop trying to register on consul'']"
proof (induction retries d consul i rule: setupConsul_for.induct)
  case (1 retries d consul i)
  show ?case
  proof (cases "i < retries")
    case False
    then show ?thesis by (subst setupConsul_for.simps) simp
  next
    case True
    with "1.prems" [of i] have nr: "\<not> registered (consul i)" by simp
    then obtain err tr where r: "setupConsulImpl (consul i) = (Some err, tr)"
      by (cases "setupConsulImpl (consul i)") (auto simp: registered_def split: option.splits)
    have "setupConsul_for retries d consul (i + 1) =
            concat (map (\<lambda>j. attempt_actions d (consul j)) [i + 1..<retries])
            @ [Logger ''Stop trying to register on consul'']"
      using True r "1.prems" by (intro "1.IH") auto
    with True r show ?thesis
      by (subst setupConsul_for.simps) (simp add: upt_conv_Cons attempt_actions_def)
  qed
qed

lemma setupConsul_for_success:
  "i \<le> k \<Longrightarrow> k < retries \<Longrightarrow> registered (consul k) \<Longrightarrow>
   (\<And>j. i \<le> j \<Longrightarrow> j < k \<Longrightarrow> \<not> registered (consul j)) \<Longrightarrow>
   setupConsul_for retries d consul i =
     concat (map (\<lambda>j. attempt_actions d (consul j)) [i..<Suc k])"
proof (induction retries d consul i rule: setupConsul_for.induct)
  case (1 retries d consul i)
  from "1.prems" have ir: "i < retries" by simp
  show ?case
  proof (cases "i = k")
    case True
    with "1.prems" obtain tr where r: "setupConsulImpl (consul i) = (None, tr)"
      by (cases "setupConsulImpl (consul i)") (auto simp: registered_def split: option.splits)
    with ir True show ?thesis
      by (subst setupConsul_for.simps) (simp add: attempt_actions_def)
  next
    case False
    with "1.prems" have ik: "i < k" by simp
    with "1.prems" have "\<not> registered (consul i)" by simp
    then obtain err tr where r: "setupConsulImpl (consul i) = (Some err, tr)"
      by (cases "setupConsulImpl (consul i)") (auto simp: registered_def split: option.splits)
    have "setupConsul_for retries d consul (i + 1) =
            concat (map (\<lambda>j. attempt_actions d (consul j)) [i + 1..<Suc k])"
      using ir r ik "1.prems" by (intro "1.IH") auto
    with ir r ik show ?thesis
      by (subst setupConsul_for.simps) (simp add: upt_conv_Cons attempt_actions_def)
  qed
qed

lemma attempts_concat:
  "attempts (concat (map (\<lambda>j. attempt_actions d (consul j)) js)) = length js"
  by (induction js) (simp_all add: attempts_append attempts_attempt_actions, simp add: attempts_def)

lemma sleeps_concat_fail:
  "(\<And>j. j \<in> set js \<Longrightarrow> \<not> registered (consul j)) \<Longrightarrow>
   sleeps (concat (map (\<lambda>j. attempt_actions d (consul j)) js)) = replicate (length js) d"
  by (induction js) (simp_all add: sleeps_append sleeps_attempt_actions)

text \<open>
  C7. When every attempt fails, \<open>setupConsul\<close> makes exactly five attempts, sleeps one
  minute after each of them, logs that it stops trying and returns. When the attempt
  numbered \<open>k\<close> (counting from 0, so \<open>k < 5\<close>) is the first to succeed, it makes exactly
  \<open>k + 1\<close> attempts, with one minute of sleep after each of the \<open>k\<close> failed ones, and
  returns after the successful one. In both cases the function returns: the run is a
  finite list of actions, none of which ends the process.
\<close>

theorem setupConsul_bounded_retry:
  "((\<forall>j<5. \<not> registered (consul j)) \<longrightarrow>
      setupConsul consul =
        concat (map (\<lambda>j. attempt_actions Minute (consul j)) [0..<5])
        @ [Logger ''Stop trying to register on consul'']
      \<and> attempts (setupConsul consul) = 5
      \<and> sleeps (setupConsul consul) = replicate 5 Minute)
   \<and> (k < 5 \<and> registered (consul k) \<and> (\<forall>j<k. \<not> registered (consul j)) \<longrightarrow>
      setupConsul consul = concat (map (\<lambda>j. attempt_actions Minute (consul j)) [0..<Suc k])
      \<and> attempts (setupConsul consul) = Suc k
      \<and> sleeps (setupConsul consul) = replicate k Minute)"
proof (intro conjI impI)
  assume f: "\<forall>j<5. \<not> registered (consul j)"
  then have t: "setupConsul consul =
        concat (map (\<lambda>j. attempt_actions Minute (consul j)) [0..<5])
        @ [Logger ''Stop trying to register on consul'']"
    unfolding setupConsul_def Let_def
    by (simp only: mult_1) (rule setupConsul_for_all_fail, simp)
  then show "setupConsul consul =
        concat (map (\<lambda>j. attempt_actions Minute (consul j)) [0..<5])
        @ [Logger ''Stop trying to register on consul'']" .
  show "attempts (setupConsul consul) = 5"
    unfolding t by (simp only: attempts_append attempts_concat) (simp add: attempts_def)
  have "sleeps (concat (map (\<lambda>j. attempt_actions Minute (consul j)) [0..<5]))
          = replicate (length [0..<5]) Minute"
    using f by (intro sleeps_concat_fail) simp
  then show "sleeps (setupConsul consul) = replicate 5 Minute"
    unfolding t by (simp add: sleeps_append)
next
  assume a: "k < 5 \<and> registered (consul k) \<and> (\<forall>j<k. \<not> registered (consul j))"
  then have t: "setupConsul consul =
                  concat (map (\<lambda>j. attempt_actions Minute (consul j)) [0..<Suc k])"
    unfolding setupConsul_def Let_def
    by (simp only: mult_1) (rule setupConsul_for_success, simp_all)
  then show "setupConsul consul =
               concat (map (\<lambda>j. attempt_actions Minute (consul j)) [0..<Suc k])" .
  show "attempts (setupConsul consul) = Suc k"
    unfolding t by (simp only: attempts_concat) simp
  have "sleeps (concat (map (\<lambda>j. attempt_actions Minute (consul j)) [0..<k]))
          = replicate (length [0..<k]) Minute"
    using a by (intro sleeps_concat_fail) simp
  with a show "sleeps (setupConsul consul) = replicate k Minute"
    unfolding t by (simp add: sleeps_append sleeps_attempt_actions)
qed

theorem setupConsul_bounded_retry_witness:
  "\<not> registered (always_refused 4)
   \<and> attempts (setupConsul always_refused) = 5
   \<and> sleeps (setupConsul always_refused) = replicate 5 Minute
   \<and> registered (third_time 2) \<and> \<not> registered (third_time 1)
   \<and> attempts (setupConsul third_time) = 3
   \<and> sleeps (setupConsul third_time) = replicate 2 Minute"
proof -
  have f: "\<forall>j<5. \<not> registered (always_refused j)"
    by (simp add: registered_def always_refused_def setupConsulImpl_def)
  have s: "(2::nat) < 5 \<and> registered (third_time 2) \<and> (\<forall>j<2. \<not> registered (third_time j))"
    by (simp add: registered_def third_time_def setupConsulImpl_def)
  from setupConsul_bounded_retry [of always_refused 0] f
  have 1: "attempts (setupConsul always_refused) = 5
           \<and> sleeps (setupConsul always_refused) = replicate 5 Minute"
    by blast
  from setupConsul_bounded_retry [of third_time 2] s
  have 2: "attempts (setupConsul third_time) = Suc 2
           \<and> sleeps (setupConsul third_time) = replicate 2 Minute"
    by blast
  from f s 1 2 show ?thesis by simp
qed

section \<open>Losing the connection\<close>

lemma sublist_Join: "p \<in> set ps \<Longrightarrow> sublist p (Join ps sep)"
proof (induction ps sep rule: Join.induct)
  case (1 sep)
  then show ?case by simp
next
  case (2 q sep)
  then show ?case by simp
next
  case (3 q v va sep)
  show ?case
  proof (cases "p = q")
    case True
    then show ?thesis by simp
  next
    case False
    with "3.prems" have "p \<in> set (v # va)" by simp
    then have "sublist p (Join (v # va) sep)" by (rule "3.IH")
    then obtain a b where "Join (v # va) sep = a @ p @ b" by (auto simp: sublist_def)
    then have "Join (q # v # va) sep = (q @ sep @ a) @ p @ b" by simp
    then show ?thesis unfolding sublist_def by blast
  qed
qed

lemma sublist_ListFormatFunc: "err \<in> set es \<Longrightarrow> sublist err (ListFormatFunc es)"
proof (cases "length es = 1")
  case True
  assume "err \<in> set es"
  with True have "hd es = err" by (cases es) auto
  with True have "ListFormatFunc es =
      (''1 error occurred:'' @ newline @ tab @ ''* '') @ err @ (newline @ newline)"
    by (simp add: ListFormatFunc_def)
  then show ?thesis unfolding sublist_def by blast
next
  case False
  define bullets where "bullets = Join (map point es) (newline @ tab)"
  assume "err \<in> set es"
  then have "point err \<in> set (map point es)" by auto
  then have "sublist (point err) bullets"
    unfolding bullets_def by (rule sublist_Join)
  then obtain a b where ab: "bullets = a @ (''* '' @ err) @ b"
    by (auto simp: sublist_def point_def)
  from False have "ListFormatFunc es =
      (itoa (length es) @ '' errors occurred:'' @ newline @ tab) @ bullets @ (newline @ newline)"
    by (simp add: ListFormatFunc_def bullets_def)
  then have "ListFormatFunc es =
      (itoa (length es) @ '' errors occurred:'' @ newline @ tab @ a @ ''* '') @ err
      @ (b @ newline @ newline)"
    unfolding ab by simp
  then show ?thesis unfolding sublist_def by blast
qed

lemma Contains_ListFormatFunc:
  "err \<in> set es \<Longrightarrow> Contains err substr \<Longrightarrow> Contains (ListFormatFunc es) substr"
  unfolding Contains_def
  using sublist_ListFormatFunc sublist_order.order_trans by blast

text \<open>
  C9. On a tick taken while connected, \<open>connected\<close> is set to false exactly when the
  round returns an error whose combined text contains \<open>connection refused\<close>. The text
  of every collected error is part of the combined text, so an error of any query
  that contains the words disconnects, and in particular an error of the explorer
  query while the node itself answers: the decision is a search in the text, not a
  check that the node is unreachable.
\<close>

theorem start_body_connection_refused:
  assumes "connected m" and "start_body (Tick node) m = (fl, m', tr)"
    and "gatherMetrics node m = (m1, errs, tr1)"
  shows "(connected m' \<longleftrightarrow>
            (case errs of None \<Rightarrow> True
             | Some es \<Rightarrow> \<not> Contains (ListFormatFunc es) ''connection refused''))
         \<and> (\<forall>es err. errs = Some es \<and> err \<in> set es \<and> Contains err ''connection refused''
              \<longrightarrow> \<not> connected m')
         \<and> (\<forall>n err. BlockNumber node = Inr n \<and> EtherscanBlockNumber node = Inl err
                     \<and> Contains err ''connection refused'' \<longrightarrow> \<not> connected m')"
proof -
  have g: "connected m1 = connected m"
    using assms(3)
    by (auto simp: gatherMetrics_def Let_def split: sum.splits option.splits if_splits)
  have c: "connected m' \<longleftrightarrow>
            (case errs of None \<Rightarrow> True
             | Some es \<Rightarrow> \<not> Contains (ListFormatFunc es) ''connection refused'')"
    using assms(3) assms(1,2) g
    by (auto simp: start_body_def Let_def split: option.splits if_splits)
  have e: "\<forall>es err. errs = Some es \<and> err \<in> set es \<and> Contains err ''connection refused''
              \<longrightarrow> \<not> connected m'"
    unfolding c using Contains_ListFormatFunc by auto
  have x: "err \<in> set es"
    if "BlockNumber node = Inr n" "EtherscanBlockNumber node = Inl err" "errs = Some es" for n err es
    using that assms(3)
    by (cases "PeerCount node"; cases "BlockByNumber node (Some n)")
       (auto simp: gatherMetrics_def Let_def Append_def)
  have s: "errs \<noteq> None" if "BlockNumber node = Inr n" "EtherscanBlockNumber node = Inl err" for n err
    using that assms(3)
    by (cases "PeerCount node"; cases "BlockByNumber node (Some n)")
       (auto simp: gatherMetrics_def Let_def Append_def)
  have "\<forall>n err. BlockNumber node = Inr n \<and> EtherscanBlockNumber node = Inl err
                     \<and> Contains err ''connection refused'' \<longrightarrow> \<not> connected m'"
    using e x s by (metis option.exhaust)
  with c e show ?thesis by blast
qed

theorem start_body_connection_refused_witness:
  "connected example_monitor
   \<and> BlockNumber explorer_refused_node = Inr 80
   \<and> \<not> connected (fst (snd (start_body (Tick explorer_refused_node) example_monitor)))"
proof -
  have c: "connected example_monitor"
    by (simp add: example_monitor_def)
  have b: "BlockNumber explorer_refused_node = Inr 80"
    by (simp add: explorer_refused_node_def example_node_def)
  have x: "EtherscanBlockNumber explorer_refused_node
             = Inl ''dial tcp 104.22.14.57:443: connect: connection refused''"
    by (simp add: explorer_refused_node_def)
  have s: "Contains ''dial tcp 104.22.14.57:443: connect: connection refused''
             ''connection refused''"
    by (simp add: Contains_def sublist_code prefix_code)
  from start_body_connection_refused
         [OF c surj_triple surj_triple, of explorer_refused_node] b x s
  have "\<not> connected (fst (snd (start_body (Tick explorer_refused_node) example_monitor)))"
    by blast
  with c b show ?thesis by simp
qed

text \<open>
  C10. The step from connected to disconnected changes the \<open>connected\<close> flag and
  nothing else: after the tick the monitor is the one the round left, with
  \<open>connected\<close> false, so \<open>synced\<close> and \<open>lastBlock\<close> are not reset. When the node itself
  is down in that round (neither its block number nor a block is obtained), they are
  the values from before the tick. They also stay through every later tick on which
  the reconnection fails: a stale \<open>synced\<close> persists while disconnected.
\<close>

theorem start_body_disconnect_frame:
  assumes "connected m" and "start_body (Tick node) m = (fl, m', tr)"
    and "gatherMetrics node m = (m1, errs, tr1)" and "\<not> connected m'"
  shows "m' = m1\<lparr>connected := False\<rparr>
         \<and> synced m' = synced m1 \<and> lastBlock m' = lastBlock m1
         \<and> (\<forall>e1 e2. BlockNumber node = Inl e1 \<and> BlockByNumber node None = Inl e2
              \<longrightarrow> synced m' = synced m \<and> lastBlock m' = lastBlock m)
         \<and> (\<forall>node2. \<not> succeeded (Chain node2) \<longrightarrow>
              \<not> connected (fst (snd (start_body (Tick node2) m')))
              \<and> synced (fst (snd (start_body (Tick node2) m'))) = synced m'
              \<and> lastBlock (fst (snd (start_body (Tick node2) m'))) = lastBlock m')"
proof -
  have a: "m' = m1\<lparr>connected := False\<rparr>"
    using assms(3) assms(1,2,4)
    by (auto simp: start_body_def Let_def split: option.splits if_splits)
  have b: "\<forall>e1 e2. BlockNumber node = Inl e1 \<and> BlockByNumber node None = Inl e2
              \<longrightarrow> synced m1 = synced m \<and> lastBlock m1 = lastBlock m"
    using assms(3)
    by (cases "PeerCount node")
       (auto simp: gatherMetrics_def Let_def split: sum.splits option.splits if_splits)
  have c: "\<forall>node2. \<not> succeeded (Chain node2) \<longrightarrow>
              \<not> connected (fst (snd (start_body (Tick node2) m')))
              \<and> synced (fst (snd (start_body (Tick node2) m'))) = synced m'
              \<and> lastBlock (fst (snd (start_body (Tick node2) m'))) = lastBlock m'"
  proof (intro allI impI)
    fix node2 :: Node
    assume "\<not> succeeded (Chain node2)"
    then obtain e where "Chain node2 = Inl e" by (cases "Chain node2") auto
    with assms(4) show "\<not> connected (fst (snd (start_body (Tick node2) m')))
              \<and> synced (fst (snd (start_body (Tick node2) m'))) = synced m'
              \<and> lastBlock (fst (snd (start_body (Tick node2) m'))) = lastBlock m'"
      by (simp add: start_body_def setupApis_def Let_def)
  qed
  from a b c show ?thesis by simp
qed

theorem start_body_disconnect_frame_witness:
  "connected (example_monitor\<lparr>synced := True\<rparr>)
   \<and> \<not> connected (fst (snd (start_body (Tick node_down) (example_monitor\<lparr>synced := True\<rparr>))))
   \<and> synced (fst (snd (start_body (Tick node_down) (example_monitor\<lparr>synced := True\<rparr>))))
   \<and> lastBlock (fst (snd (start_body (Tick node_down) (example_monitor\<lparr>synced := True\<rparr>))))
       = Some \<lparr>Number = 79, Timestamp = 1000000000\<rparr>
   \<and> synced (fst (snd (start_body (Tick node_down)
               (fst (snd (start_body (Tick node_down) (example_monitor\<lparr>synced := True\<rparr>)))))))"
proof -
  have c: "connected (example_monitor\<lparr>synced := True\<rparr>)"
    by (simp add: example_monitor_def)
  have d: "\<not> connected (fst (snd (start_body (Tick node_down)
                                   (example_monitor\<lparr>synced := True\<rparr>))))"
    by (simp add: node_down_def example_monitor_def start_body_def gatherMetrics_def
          Let_def Append_def ListFormatFunc_def point_def itoa.simps Contains_def
          newline_def tab_def sublist_code prefix_code)
  have n: "BlockNumber node_down = Inl ''dial tcp 127.0.0.1:8545: connect: connection refused''"
          "BlockByNumber node_down None
             = Inl ''dial tcp 127.0.0.1:8545: connect: connection refused''"
          "\<not> succeeded (Chain node_down)"
    by (simp_all add: node_down_def)
  have v: "synced (example_monitor\<lparr>synced := True\<rparr>)"
          "lastBlock (example_monitor\<lparr>synced := True\<rparr>)
             = Some \<lparr>Number = 79, Timestamp = 1000000000\<rparr>"
    by (simp_all add: example_monitor_def)
  note w = start_body_disconnect_frame [OF c surj_triple surj_triple d]
  from conjunct1 [OF conjunct2 [OF conjunct2 [OF conjunct2 [OF w]]]] n(1,2) v
  have 1: "synced (fst (snd (start_body (Tick node_down) (example_monitor\<lparr>synced := True\<rparr>))))
           \<and> lastBlock (fst (snd (start_body (Tick node_down)
                                     (example_monitor\<lparr>synced := True\<rparr>))))
               = Some \<lparr>Number = 79, Timestamp = 1000000000\<rparr>"
    by simp
  from conjunct2 [OF conjunct2 [OF conjunct2 [OF conjunct2 [OF w]]]] n(3) 1
  have 2: "synced (fst (snd (start_body (Tick node_down)
               (fst (snd (start_body (Tick node_down) (example_monitor\<lparr>synced := True\<rparr>)))))))"
    by simp
  from c d 1 2 show ?thesis by simp
qed

end
